theory Spec2Isabelle
  imports Main
begin

section \<open>The client table and the update request of server.js\<close>

text \<open>
  The development embeds the handler \<^verbatim>\<open>app.put('/api/v1/clients/:id')\<close> of
  \<^verbatim>\<open>src/server.js\<close> together with \<^verbatim>\<open>validateId\<close> and
  \<^verbatim>\<open>validatePriority\<close>. The spec calls the handler \<^verbatim>\<open>updateRecord\<close>, the
  column \<^verbatim>\<open>status\<close> the lane and the column \<^verbatim>\<open>priority\<close> the rank.

  Input domain of the model: the path parameter after \<^verbatim>\<open>parseInt\<close> is a number that
  is an integer or NaN; the JSON body carries \<^verbatim>\<open>status\<close> absent or a string, and
  \<^verbatim>\<open>priority\<close> absent or an integer number. A rank is modelled by its integer
  value, whether the column stores it as a 64-bit INTEGER or, outside that range,
  as a REAL.
\<close>

subsection \<open>JavaScript values\<close>

datatype jsnum = NaN | Num int

fun isNaN :: "jsnum \<Rightarrow> bool" where
  "isNaN NaN = True"
| "isNaN (Num n) = False"

text \<open>The comparison \<^verbatim>\<open>priority <= 0\<close>: every comparison with NaN is false.\<close>

fun le_zero :: "jsnum \<Rightarrow> bool" where
  "le_zero NaN = False"
| "le_zero (Num n) = (n \<le> 0)"

text \<open>
  The request body after \<^verbatim>\<open>let { status, priority } = req.body\<close>; \<open>None\<close> is
  \<^verbatim>\<open>undefined\<close>, a field the body does not have.
\<close>

record body =
  req_status :: "string option"
  req_priority :: "int option"

text \<open>
  Truthiness, as \<^verbatim>\<open>if (status)\<close> and \<^verbatim>\<open>if (priority)\<close> test it:
  \<^verbatim>\<open>undefined\<close>, the empty string and the number 0 are falsy.
\<close>

fun truthy_status :: "string option \<Rightarrow> bool" where
  "truthy_status None = False"
| "truthy_status (Some s) = (s \<noteq> [])"

fun truthy_priority :: "int option \<Rightarrow> bool" where
  "truthy_priority None = False"
| "truthy_priority (Some p) = (p \<noteq> 0)"

definition lanes :: "string list" where
  "lanes = [''backlog'', ''inProgress'', ''complete'']"

text \<open>\<^verbatim>\<open>['backlog', 'inProgress', 'complete'].includes(status)\<close>\<close>

fun array_includes :: "string list \<Rightarrow> string option \<Rightarrow> bool" where
  "array_includes xs None = False"
| "array_includes xs (Some s) = (s \<in> set xs)"

subsection \<open>The table \<^verbatim>\<open>clients\<close>\<close>

datatype sqltext = Null | Text string

text \<open>
  A row has the three columns the handler reads and writes; \<open>attrs\<close> stands for the
  remaining columns, which no statement of the handler mentions.
\<close>

record 'a client =
  cid :: int
  status :: sqltext
  priority :: int
  attrs :: 'a

text \<open>
  Parameter binding. The driver leaves a parameter whose JavaScript value is
  \<^verbatim>\<open>undefined\<close> unbound, and an unbound parameter reads as NULL.
\<close>

fun bind_text :: "string option \<Rightarrow> sqltext" where
  "bind_text None = Null"
| "bind_text (Some s) = Text s"

text \<open>SQL equality in a WHERE clause: a comparison with NULL never selects a row.\<close>

fun sql_eq :: "sqltext \<Rightarrow> sqltext \<Rightarrow> bool" where
  "sql_eq (Text a) (Text b) = (a = b)"
| "sql_eq _ _ = False"

text \<open>\<^verbatim>\<open>WHERE id = ?\<close> with the parsed path parameter bound.\<close>

fun where_id :: "jsnum \<Rightarrow> 'a client \<Rightarrow> bool" where
  "where_id NaN r = False"
| "where_id (Num i) r = (cid r = i)"

text \<open>\<^verbatim>\<open>SELECT * FROM clients WHERE id = ?\<close> through \<^verbatim>\<open>db.get\<close>: the first row.\<close>

definition select_by_id :: "jsnum \<Rightarrow> 'a client list \<Rightarrow> 'a client option" where
  "select_by_id i db = find (where_id i) db"

text \<open>
  The SQL expression \<^verbatim>\<open>priority + 1\<close>. A value of the 64-bit range is an INTEGER
  and the sum is exact (from the largest one it is the REAL \<open>2 ^ 63\<close>). A value
  outside the range is a REAL whose neighbours are more than 1 apart: the sum rounds
  back to the value itself.
\<close>

definition sql_plus_one :: "int \<Rightarrow> int" where
  "sql_plus_one v = (if - (2 ^ 63) \<le> v \<and> v < 2 ^ 63 then v + 1 else v)"

text \<open>
  \<^verbatim>\<open>UPDATE clients SET priority = priority + 1 WHERE status = ? AND priority >= ?\<close>
\<close>

definition update_shift :: "sqltext \<Rightarrow> int \<Rightarrow> 'a client list \<Rightarrow> 'a client list" where
  "update_shift st p db =
     map (\<lambda>r. if sql_eq (status r) st \<and> p \<le> priority r
              then r\<lparr>priority := sql_plus_one (priority r)\<rparr> else r) db"

text \<open>\<^verbatim>\<open>UPDATE clients SET status = ?, priority = ? WHERE id = ?\<close>\<close>

definition update_target :: "sqltext \<Rightarrow> int \<Rightarrow> jsnum \<Rightarrow> 'a client list \<Rightarrow> 'a client list" where
  "update_target st p i db =
     map (\<lambda>r. if where_id i r then r\<lparr>status := st, priority := p\<rparr> else r) db"

text \<open>\<^verbatim>\<open>UPDATE clients SET status = ? WHERE id = ?\<close>\<close>

definition update_status :: "sqltext \<Rightarrow> jsnum \<Rightarrow> 'a client list \<Rightarrow> 'a client list" where
  "update_status st i db =
     map (\<lambda>r. if where_id i r then r\<lparr>status := st\<rparr> else r) db"

subsection \<open>The connection: statements, transactions and failures\<close>

text \<open>
  A connection holds the committed table and, while a transaction is open, the
  table as the transaction sees it. A statement outside a transaction commits by
  itself. The handler issues \<^verbatim>\<open>BEGIN TRANSACTION\<close> and \<^verbatim>\<open>COMMIT\<close>; no
  statement of the source is a \<^verbatim>\<open>ROLLBACK\<close>.
\<close>

record 'a conn =
  committed :: "'a client list"
  pending :: "'a client list option"

definition connect :: "'a client list \<Rightarrow> 'a conn" where
  "connect db = \<lparr>committed = db, pending = None\<rparr>"

definition current :: "'a conn \<Rightarrow> 'a client list" where
  "current c = (case pending c of None \<Rightarrow> committed c | Some t \<Rightarrow> t)"

definition begin_transaction :: "'a conn \<Rightarrow> 'a conn" where
  "begin_transaction c =
     (case pending c of None \<Rightarrow> c\<lparr>pending := Some (committed c)\<rparr> | Some t \<Rightarrow> c)"

definition commit :: "'a conn \<Rightarrow> 'a conn" where
  "commit c =
     (case pending c of None \<Rightarrow> c | Some t \<Rightarrow> \<lparr>committed = t, pending = None\<rparr>)"

text \<open>
  \<^verbatim>\<open>db.run\<close> of an UPDATE. Every callback of the source takes an \<^verbatim>\<open>err\<close>, so
  every statement may fail; which ones do is a parameter of the model. A statement
  that fails changes no row and leaves an open transaction open; the first
  component of the result is whether the callback received an error.
\<close>

definition run :: "bool \<Rightarrow> ('a client list \<Rightarrow> 'a client list) \<Rightarrow> 'a conn \<Rightarrow> bool \<times> 'a conn" where
  "run fails upd c =
     (if fails then (True, c)
      else (False, case pending c of
                     None \<Rightarrow> c\<lparr>committed := upd (committed c)\<rparr>
                   | Some t \<Rightarrow> c\<lparr>pending := Some (upd t)\<rparr>))"

record faults =
  get_fails :: bool
  shift_fails :: bool
  target_fails :: bool
  status_fails :: bool
  all_fails :: bool

definition no_faults :: faults where
  "no_faults = \<lparr>get_fails = False, shift_fails = False, target_fails = False,
                 status_fails = False, all_fails = False\<rparr>"

subsection \<open>Validation\<close>

type_synonym message = "string \<times> string"

datatype validation = Valid | Invalid message

definition id_not_integer :: message where
  "id_not_integer = (''Invalid id provided.'', ''Id can only be integer.'')"

definition id_not_found :: message where
  "id_not_found = (''Invalid id provided.'', ''Cannot find client with that id.'')"

definition invalid_priority :: message where
  "invalid_priority = (''Invalid priority provided.'', ''Priority must be a positive integer.'')"

definition invalid_status :: message where
  "invalid_status =
     (''Invalid status provided.'', ''Status must be one of: [backlog | inProgress | complete].'')"

text \<open>
  \<^verbatim>\<open>validateId\<close>. \<open>None\<close> is the rejected promise (\<^verbatim>\<open>reject(err)\<close>): the
  \<^verbatim>\<open>await\<close> of the handler throws and the handler sends nothing.
\<close>

definition validateId :: "bool \<Rightarrow> jsnum \<Rightarrow> 'a client list \<Rightarrow> validation option" where
  "validateId err i db =
     (if isNaN i then Some (Invalid id_not_integer)
      else if err then None
      else (case select_by_id i db of
              None \<Rightarrow> Some (Invalid id_not_found)
            | Some client \<Rightarrow> Some Valid))"

definition validatePriority :: "jsnum \<Rightarrow> validation" where
  "validatePriority p = (if isNaN p \<or> le_zero p then Invalid invalid_priority else Valid)"

subsection \<open>The handler\<close>

datatype 'a response =
    Status200 "'a client list"
  | Status400 message
  | Status500
  | No_response

text \<open>The names the spec gives to the responses.\<close>

definition NotFound :: "'a response" where
  "NotFound = Status400 id_not_found"

definition InvalidRank :: "'a response" where
  "InvalidRank = Status400 invalid_priority"

definition InvalidLane :: "'a response" where
  "InvalidLane = Status400 invalid_status"

definition StorageError :: "'a response" where
  "StorageError = Status500"

text \<open>
  The process exits: an open transaction is never committed and the committed
  table stays as it is.
\<close>

definition crash :: "'a conn \<Rightarrow> 'a conn" where
  "crash c = c\<lparr>pending := None\<rparr>"

text \<open>
  The block under \<^verbatim>\<open>db.serialize\<close>: the four statements run in the order written.
  The closing \<^verbatim>\<open>db.all\<close> of the handler is issued outside the block and has
  answered the request before the first statement of the block completes. The
  callback of an update that fails therefore sends on an answered response, the
  send throws, and the process exits before the \<^verbatim>\<open>COMMIT\<close>. The result is the
  connection the block leaves behind.
\<close>

definition rank_change :: "faults \<Rightarrow> sqltext \<Rightarrow> int \<Rightarrow> jsnum \<Rightarrow> 'a conn \<Rightarrow> 'a conn" where
  "rank_change f st p i c0 =
     (let c1 = begin_transaction c0;
          (e1, c2) = run (shift_fails f) (update_shift st p) c1
      in if e1 then crash c2
         else (let (e2, c3) = run (target_fails f) (update_target st p i) c2
               in if e2 then crash c3 else commit c3))"

definition lane_change :: "faults \<Rightarrow> sqltext \<Rightarrow> jsnum \<Rightarrow> 'a conn \<Rightarrow> bool \<times> 'a conn" where
  "lane_change f st i c = run (status_fails f) (update_status st i) c"

text \<open>
  The closing \<^verbatim>\<open>db.all('SELECT * FROM clients')\<close> and its callback, on the rows it
  reads.
\<close>

definition listing :: "faults \<Rightarrow> 'a client list \<Rightarrow> 'a response" where
  "listing f rows = (if all_fails f then Status500 else Status200 rows)"

text \<open>
  The answer outside the rank branch. The update of the branch
  \<^verbatim>\<open>else if (status)\<close> is not under \<^verbatim>\<open>db.serialize\<close> and completes before the
  listing is read: the response is the first one sent, the 500 of the update's
  callback if it failed, else what the callback of \<^verbatim>\<open>db.all\<close> sends. The second
  component is the committed table the request leaves behind.
\<close>

definition send_listing :: "faults \<Rightarrow> bool \<times> 'a conn \<Rightarrow> 'a response \<times> 'a client list" where
  "send_listing f ec =
     (if fst ec \<or> all_fails f then (Status500, committed (snd ec))
      else (Status200 (current (snd ec)), committed (snd ec)))"

text \<open>The branch \<^verbatim>\<open>else if (status)\<close> and the fall-through to the listing.\<close>

definition status_branch :: "faults \<Rightarrow> jsnum \<Rightarrow> body \<Rightarrow> 'a client list \<Rightarrow> 'a response \<times> 'a client list" where
  "status_branch f i b db =
     (if truthy_status (req_status b)
      then send_listing f (lane_change f (bind_text (req_status b)) i (connect db))
      else send_listing f (False, connect db))"

text \<open>
  The handler. In the rank branch the answer is the listing of the rows as they
  were before the request, whatever the statements of the block do afterwards.
\<close>

definition put_client :: "faults \<Rightarrow> jsnum \<Rightarrow> body \<Rightarrow> 'a client list \<Rightarrow> 'a response \<times> 'a client list" where
  "put_client f i b db =
     (case validateId (get_fails f) i db of
        None \<Rightarrow> (No_response, db)
      | Some (Invalid m) \<Rightarrow> (Status400 m, db)
      | Some Valid \<Rightarrow>
          if truthy_status (req_status b) \<and> \<not> array_includes lanes (req_status b)
          then (Status400 invalid_status, db)
          else (case req_priority b of
                  None \<Rightarrow> status_branch f i b db
                | Some p \<Rightarrow>
                    if truthy_priority (Some p) then
                      (case validatePriority (Num p) of
                         Invalid m \<Rightarrow> (Status400 m, db)
                       | Valid \<Rightarrow>
                           (listing f db,
                            committed
                              (rank_change f (bind_text (req_status b)) p i (connect db))))
                    else status_branch f i b db))"

subsection \<open>Properties and fixtures\<close>



definition row :: "int \<Rightarrow> string \<Rightarrow> int \<Rightarrow> unit client" where
  "row i l p = \<lparr>cid = i, status = Text l, priority = p, attrs = ()\<rparr>"

definition scenario_A :: "unit client list" where
  "scenario_A = [row 1 ''backlog'' 1, row 2 ''backlog'' 2, row 3 ''backlog'' 3]"

definition board :: "unit client list" where
  "board = [row 1 ''backlog'' 1, row 2 ''backlog'' 2, row 3 ''inProgress'' 1, row 4 ''complete'' 1]"

text \<open>A backlog whose only record sits at rank \<open>2 ^ 63\<close>, where a request can put it.\<close>

definition far_board :: "unit client list" where
  "far_board = [row 1 ''backlog'' 9223372036854775808, row 2 ''complete'' 1]"

section \<open>The handler, branch by branch\<close>

lemmas sql_defs =
  update_shift_def update_target_def update_status_def select_by_id_def sql_plus_one_def

lemmas conn_defs = connect_def current_def begin_transaction_def commit_def run_def crash_def

lemmas handler_defs =
  put_client_def status_branch_def send_listing_def listing_def rank_change_def lane_change_def
  validateId_def validatePriority_def

lemmas eval_defs =
  handler_defs conn_defs sql_defs no_faults_def lanes_def scenario_A_def board_def
  far_board_def row_def
  id_not_found_def id_not_integer_def invalid_priority_def invalid_status_def
  NotFound_def InvalidRank_def InvalidLane_def StorageError_def

text \<open>The block commits both updates or, when one of them fails, nothing.\<close>

lemma rank_change_connect:
  "rank_change f st p i (connect db) =
     connect (if shift_fails f \<or> target_fails f then db
              else update_target st p i (update_shift st p db))"
  by (cases "shift_fails f"; cases "target_fails f")
    (simp_all add: rank_change_def conn_defs)

lemma committed_connect: "committed (connect db) = db"
  by (simp add: connect_def)

lemma lane_change_connect:
  "lane_change f st i (connect db) =
     (status_fails f, connect (if status_fails f then db else update_status st i db))"
  by (simp add: lane_change_def conn_defs)

lemma send_listing_connect:
  "send_listing f (e, connect db) =
     (if e \<or> all_fails f then Status500 else Status200 db, db)"
  by (simp add: send_listing_def conn_defs)

lemma select_by_id_None: "select_by_id (Num i) db = None \<longleftrightarrow> (\<forall>r\<in>set db. cid r \<noteq> i)"
  by (auto simp add: select_by_id_def find_None_iff)

lemma validateId_Num:
  "validateId err (Num i) db =
     (if err then None
      else if \<forall>r\<in>set db. cid r \<noteq> i then Some (Invalid id_not_found) else Some Valid)"
  using select_by_id_None [of i db]
  by (auto simp add: validateId_def split: option.splits)

lemma validateId_found:
  "\<not> err \<Longrightarrow> \<exists>r\<in>set db. cid r = i \<Longrightarrow> validateId err (Num i) db = Some Valid"
  by (auto simp add: validateId_Num)








section \<open>Ranks stay unique within a lane\<close>




section \<open>Claims\<close>







text \<open>
  C3. Scenario A: with the backlog lane holding (id 1, rank 1), (id 2, rank 2) and
  (id 3, rank 3), the request for id 3 with lane backlog and rank 1 succeeds: it is
  answered 200, with the rows as they were when the request arrived, and it leaves
  id 1 at rank 2, id 2 at rank 3 and id 3 at rank 1, all in backlog.
\<close>

theorem scenario_A_moves_3_to_front:
  "put_client no_faults (Num 3) \<lparr>req_status = Some ''backlog'', req_priority = Some 1\<rparr> scenario_A
     = (Status200 scenario_A,
        [row 1 ''backlog'' 2, row 2 ''backlog'' 3, row 3 ''backlog'' 1])"
  by (simp add: eval_defs)

text \<open>
  C4 asks that a failure between the shift and the update of the target leaves the
  table as it was before the request and is reported as a storage error. In
  Scenario A, when the update of the target fails, the table is as before, but the
  request has been answered 200 with the listing: the 500 of the error callback is
  never sent.
\<close>

theorem failed_target_update_is_answered_200:
  "put_client (no_faults\<lparr>target_fails := True\<rparr>) (Num 3)
     \<lparr>req_status = Some ''backlog'', req_priority = Some 1\<rparr> scenario_A
   = (Status200 scenario_A, scenario_A)"
  by (simp add: eval_defs)

text \<open>
  The table is left as it was whenever one of the two updates fails, on every
  table and for every request that supplies a priority other than 0.
\<close>

lemma failed_update_leaves_table:
  assumes "shift_fails f \<or> target_fails f" and "req_priority b = Some p" and "p \<noteq> 0"
  shows "snd (put_client f i b db) = db"
  using assms
  by (auto simp add: put_client_def validatePriority_def rank_change_connect committed_connect
      split: option.splits validation.splits if_splits)

text \<open>
  C5 asks that a request with a rank and no lane sets the rank and keeps the lane.
  The handler binds the absent status into \<^verbatim>\<open>SET status = ?\<close>: in the committed
  table the rank is set and the lane of the record is NULL.
\<close>

theorem rank_only_update_nulls_lane:
  "snd (put_client no_faults (Num 1) \<lparr>req_status = None, req_priority = Some 2\<rparr>
          [row 1 ''backlog'' 1])
   = [\<lparr>cid = 1, status = Null, priority = 2, attrs = ()\<rparr>]"
  by (simp add: eval_defs)

text \<open>
  C6 asks that a rank that is not a positive integer is answered with InvalidRank
  and changes nothing. Rank 0 is falsy, so \<^verbatim>\<open>validatePriority\<close> is never called on
  it: alone it is answered with the listing, and together with a lane the lane of
  the record is changed.
\<close>

theorem rank_zero_is_accepted:
  "put_client no_faults (Num 1) \<lparr>req_status = None, req_priority = Some 0\<rparr> scenario_A
     = (Status200 scenario_A, scenario_A) \<and>
   put_client no_faults (Num 1) \<lparr>req_status = Some ''complete'', req_priority = Some 0\<rparr> scenario_A
     = (Status200 [row 1 ''complete'' 1, row 2 ''backlog'' 2, row 3 ''backlog'' 3],
        [row 1 ''complete'' 1, row 2 ''backlog'' 2, row 3 ''backlog'' 3])"
  by (simp add: eval_defs)

text \<open>
  The slip is confined to 0: a negative rank reaches \<^verbatim>\<open>validatePriority\<close> and is
  rejected before any statement runs.
\<close>

lemma negative_rank_is_invalid:
  assumes "\<not> get_fails f" and "\<exists>r\<in>set db. cid r = i" and "p < 0"
    and "truthy_status st \<longrightarrow> array_includes lanes st"
  shows "put_client f (Num i) \<lparr>req_status = st, req_priority = Some p\<rparr> db = (InvalidRank, db)"
  using assms
  by (auto simp add: put_client_def validateId_found validatePriority_def InvalidRank_def)

text \<open>
  C7. When the lookup of \<^verbatim>\<open>validateId\<close> runs and no record has the id of the
  request, the answer is NotFound and the table is unchanged, whatever the body.
\<close>

theorem unknown_id_is_not_found:
  assumes "\<not> get_fails f" and "\<forall>r\<in>set db. cid r \<noteq> i"
  shows "put_client f (Num i) b db = (NotFound, db)"
  using assms by (simp add: put_client_def validateId_Num NotFound_def)

text \<open>Scenario B: id 99 on the table of Scenario A.\<close>

theorem unknown_id_is_not_found_witness:
  "\<not> get_fails no_faults \<and>
   put_client no_faults (Num 99) \<lparr>req_status = None, req_priority = Some 1\<rparr> scenario_A
     = (NotFound, scenario_A)"
proof -
  have g: "\<not> get_fails no_faults" by (simp add: no_faults_def)
  have a: "\<forall>r\<in>set scenario_A. cid r \<noteq> 99" by (simp add: scenario_A_def row_def)
  show ?thesis
    using g unknown_id_is_not_found [OF g a] by simp
qed

text \<open>
  C8 asks that every lane string other than the three tokens is answered with
  InvalidLane and changes nothing. The empty string is falsy, so the membership
  test is skipped: alone it is answered with the listing, and together with a rank
  it is written into the record of the committed table.
\<close>

theorem empty_lane_is_accepted:
  "put_client no_faults (Num 1) \<lparr>req_status = Some [], req_priority = None\<rparr> scenario_A
     = (Status200 scenario_A, scenario_A) \<and>
   snd (put_client no_faults (Num 1) \<lparr>req_status = Some [], req_priority = Some 5\<rparr> scenario_A)
     = [row 1 [] 5, row 2 ''backlog'' 2, row 3 ''backlog'' 3]"
  by (simp add: eval_defs)

text \<open>
  The slip is confined to the empty string: every other string outside the three
  tokens is rejected before any statement runs, whatever the rank.
\<close>

lemma unknown_lane_is_invalid:
  assumes "\<not> get_fails f" and "\<exists>r\<in>set db. cid r = i" and "L \<noteq> []" and "L \<notin> set lanes"
  shows "put_client f (Num i) \<lparr>req_status = Some L, req_priority = pr\<rparr> db = (InvalidLane, db)"
  using assms
  by (simp add: put_client_def validateId_found InvalidLane_def)

text \<open>
  C9. A request for an existing id with one of the three lanes and no rank, whose
  statements run, sets the lane of the target record and nothing else: the rank of
  the target and every other record are as before, position by position.
\<close>

theorem lane_only_update:
  assumes "\<not> get_fails f" and "\<not> status_fails f"
    and "\<exists>r\<in>set db. cid r = i" and "L \<in> set lanes"
  shows "length (snd (put_client f (Num i) \<lparr>req_status = Some L, req_priority = None\<rparr> db)) = length db \<and>
         (\<forall>k<length db.
            snd (put_client f (Num i) \<lparr>req_status = Some L, req_priority = None\<rparr> db) ! k =
              (if cid (db ! k) = i then (db ! k)\<lparr>status := Text L\<rparr> else db ! k))"
proof -
  from assms(4) have "L \<noteq> []" by (auto simp add: lanes_def)
  with assms have "snd (put_client f (Num i) \<lparr>req_status = Some L, req_priority = None\<rparr> db) =
      update_status (Text L) (Num i) db"
    by (simp add: put_client_def validateId_found status_branch_def lane_change_connect
        send_listing_connect)
  then show ?thesis
    by (simp add: update_status_def)
qed

text \<open>
  The theorem at work: client 2 moves to lane complete and keeps rank 2; lane
  complete already holds client 4.
\<close>

theorem lane_only_update_witness:
  "\<not> get_fails no_faults \<and> \<not> status_fails no_faults \<and> (\<exists>r\<in>set board. cid r = 2) \<and>
   ''complete'' \<in> set lanes \<and>
   snd (put_client no_faults (Num 2) \<lparr>req_status = Some ''complete'', req_priority = None\<rparr> board)
     = [row 1 ''backlog'' 1, row 2 ''complete'' 2, row 3 ''inProgress'' 1, row 4 ''complete'' 1]"
proof -
  have g: "\<not> get_fails no_faults" and s: "\<not> status_fails no_faults"
    by (simp_all add: no_faults_def)
  have e: "\<exists>r\<in>set board. cid r = 2" by (simp add: board_def row_def)
  have l: "''complete'' \<in> set lanes" by (simp add: lanes_def)
  have len: "length board = 4" by (simp add: board_def)
  have "snd (put_client no_faults (Num 2) \<lparr>req_status = Some ''complete'', req_priority = None\<rparr> board)
     = [row 1 ''backlog'' 1, row 2 ''complete'' 2, row 3 ''inProgress'' 1, row 4 ''complete'' 1]"
    using lane_only_update [OF g s e l]
    by (simp add: list_eq_iff_nth_eq len All_less_Suc numeral_eq_Suc board_def row_def)
  then show ?thesis
    using g s e l by simp
qed

text \<open>
  C10. A request for an existing id whose body has neither a lane nor a rank, and
  whose two reads run, is answered with the listing of the whole table and changes
  no record.
\<close>

theorem empty_update_lists:
  assumes "\<not> get_fails f" and "\<not> all_fails f" and "\<exists>r\<in>set db. cid r = i"
  shows "put_client f (Num i) \<lparr>req_status = None, req_priority = None\<rparr> db = (Status200 db, db)"
  using assms
  by (simp add: put_client_def validateId_found status_branch_def send_listing_connect)

theorem empty_update_lists_witness:
  "\<not> get_fails no_faults \<and> \<not> all_fails no_faults \<and> (\<exists>r\<in>set board. cid r = 3) \<and>
   put_client no_faults (Num 3) \<lparr>req_status = None, req_priority = None\<rparr> board = (Status200 board, board)"
proof -
  have g: "\<not> get_fails no_faults" and a: "\<not> all_fails no_faults"
    by (simp_all add: no_faults_def)
  have e: "\<exists>r\<in>set board. cid r = 3" by (simp add: board_def row_def)
  show ?thesis
    using g a e empty_update_lists [OF g a e] by simp
qed

end
